theory Spec2Isabelle
  imports Main
begin

section \<open>Python values, exceptions and the platform\<close>

text \<open>
  The values a validator receives are form data: scalars, lists and string-keyed dicts.
  A Python \<open>str\<close> is modelled as a \<open>string\<close> whose characters are its code points
  (those below 256); \<open>len\<close> is \<open>length\<close>.  A dict is an association list in insertion
  order.  \<open>PDate\<close> and \<open>PTime\<close> stand for \<open>datetime.date\<close> and \<open>datetime.time\<close> objects.
\<close>

datatype pyval =
    PNone
  | PBool bool
  | PInt int
  | PStr string
  | PList "pyval list"
  | PDict "(string \<times> pyval) list"
  | PDate nat nat nat
  | PTime nat nat nat nat

text \<open>
  Exceptions other than the form errors.  \<open>exn_raised_by\<close> names the call that raised the
  object: two exceptions of the same class and message raised by two different calls are
  two different objects.
\<close>

datatype exn_class =
    ValueError | TypeError | AttributeError | KeyError | OSError | OtherException
  | SystemExit | KeyboardInterrupt | GeneratorExit

datatype pyexn = PyExn (exn_class: exn_class) (exn_msg: string) (exn_raised_by: string)

text \<open>\<open>isinstance(e, Exception)\<close>: the three classes below derive from \<open>BaseException\<close> only.\<close>

fun is_Exception :: "exn_class \<Rightarrow> bool" where
  "is_Exception SystemExit = False"
| "is_Exception KeyboardInterrupt = False"
| "is_Exception GeneratorExit = False"
| "is_Exception _ = True"

datatype family = AF_INET | AF_INET6

datatype match_mode = TRUTHY | FALSY | NONE | NOTNONE | Matches pyval

text \<open>
  Library functions the validators call, taken as parameters: the C library's
  \<open>inet_pton\<close> (does the text parse in the family), the \<open>datetime\<close> parsers on a string
  (\<open>None\<close> is their \<open>ValueError\<close>), \<open>re.match\<close> of a pattern at the start of a string,
  \<open>repr\<close>, and \<open>==\<close>.
\<close>

record platform =
  libc_inet_pton :: "family \<Rightarrow> string \<Rightarrow> bool"
  date_fromisoformat :: "string \<Rightarrow> pyval option"
  time_fromisoformat :: "string \<Rightarrow> pyval option"
  strptime_date :: "string \<Rightarrow> string \<Rightarrow> pyval option"
  strptime_time :: "string \<Rightarrow> string \<Rightarrow> pyval option"
  re_match :: "string \<Rightarrow> string \<Rightarrow> bool"
  py_repr :: "pyval \<Rightarrow> string"
  repr_matches :: "match_mode \<Rightarrow> string"
  py_eq :: "pyval \<Rightarrow> pyval \<Rightarrow> bool"

section \<open>Validators and form errors\<close>

text \<open>
  One constructor per class of \<open>validators.py\<close>, holding the fields its \<open>__init__\<close> stores.
  A "validator or list of validators" is a \<open>vspec\<close>.
\<close>

datatype validator =
    List vspec
  | Dict "(string \<times> vspec) list"
  | Map vspec
  | LambdaMap "pyval \<Rightarrow> pyexn + pyval"
  | LambdaFilter "pyval \<Rightarrow> pyexn + pyval" match_mode
  | Bool
  | Date "string option" bool bool
  | Email "string option"
  | Exists
  | IPAddress "string list"
  | Length "int option" "int option"
  | Regex string
  | Select "pyval list"
  | Time "string option" bool bool
and vspec = Single validator | Several "validator list"

text \<open>
  \<open>errors.py\<close>: \<open>FormKeyError\<close> with the key path \<open>Dict.validate\<close> gives it,
  \<open>ValidationError(key, value, validator, message, exception)\<close>, and any other exception
  that leaves \<open>validate\<close> uncaught.
\<close>

datatype error =
    FormKeyError string
  | ValidationError (err_key: string) (err_value: pyval) (err_validator: validator)
      (err_message: "string option") (err_exception: "pyexn option")
  | Propagated pyexn

text \<open>
  What a call of \<open>validate\<close> does: raise (\<open>Inl\<close>) or return a value (\<open>Inr\<close>), where
  \<open>Inr PNone\<close> is a method that returns nothing.
\<close>

type_synonym outcome = "error + pyval"

definition raise_error ::
  "validator \<Rightarrow> string \<Rightarrow> pyval \<Rightarrow> string option \<Rightarrow> pyexn option \<Rightarrow> error" where
  "raise_error self key v message exception = ValidationError key v self message exception"

fun wrap_validator_list :: "vspec \<Rightarrow> validator list" where
  "wrap_validator_list (Several vs) = vs"
| "wrap_validator_list (Single v) = [v]"

section \<open>Strings\<close>

text \<open>\<open>str.lower\<close> on code points below 256: A-Z and the capital letters of Latin-1.\<close>

definition lower_char :: "char \<Rightarrow> char" where
  "lower_char c =
     (let n = (of_char c :: nat) in
      if (65 \<le> n \<and> n \<le> 90) \<or> (192 \<le> n \<and> n \<le> 222 \<and> n \<noteq> 215)
      then char_of (n + 32) else c)"

definition str_lower :: "string \<Rightarrow> string" where
  "str_lower s = map lower_char s"

text \<open>\<open>str(n)\<close> for an integer, as \<open>%s\<close> and f-strings format it.\<close>

definition digit_char :: "nat \<Rightarrow> char" where
  "digit_char d = char_of (48 + d)"

function str_nat :: "nat \<Rightarrow> string" where
  "str_nat n = (if n < 10 then [digit_char n] else str_nat (n div 10) @ [digit_char (n mod 10)])"
  by pat_completeness auto
termination
  by (relation "measure id") auto

definition str_int :: "int \<Rightarrow> string" where
  "str_int i = (if i < 0 then CHR ''-'' # str_nat (nat (- i)) else str_nat (nat i))"

text \<open>
  \<open>s.rpartition(c)\<close>: \<open>rsplit1 c s\<close> finds the last \<open>c\<close> and gives the text before and
  after it; without a \<open>c\<close>, \<open>rpartition\<close> gives two empty strings and \<open>s\<close>.
\<close>

fun rsplit1 :: "char \<Rightarrow> string \<Rightarrow> (string \<times> string) option" where
  "rsplit1 c [] = None"
| "rsplit1 c (x # xs) =
     (case rsplit1 c xs of
        Some (a, b) \<Rightarrow> Some (x # a, b)
      | None \<Rightarrow> if x = c then Some ([], xs) else None)"

definition rpartition :: "string \<Rightarrow> char \<Rightarrow> string \<times> string \<times> string" where
  "rpartition s c = (case rsplit1 c s of Some (a, b) \<Rightarrow> (a, [c], b) | None \<Rightarrow> ([], [], s))"

text \<open>The name of a value's type, as exception messages print it.\<close>

fun type_name :: "pyval \<Rightarrow> string" where
  "type_name PNone = ''NoneType''"
| "type_name (PBool _) = ''bool''"
| "type_name (PInt _) = ''int''"
| "type_name (PStr _) = ''str''"
| "type_name (PList _) = ''list''"
| "type_name (PDict _) = ''dict''"
| "type_name (PDate _ _ _) = ''datetime.date''"
| "type_name (PTime _ _ _ _) = ''datetime.time''"

section \<open>Content validators\<close>

subsection \<open>Bool\<close>

text \<open>
  \<open>value = value.lower()\<close> rebinds the parameter, so \<open>raise_error\<close> receives the lowered
  text.  A value without a \<open>lower\<close> method raises \<open>AttributeError\<close>.
\<close>

definition no_attribute :: "pyval \<Rightarrow> string \<Rightarrow> error" where
  "no_attribute v a =
     Propagated (PyExn AttributeError
       ([CHR 0x27] @ type_name v @ [CHR 0x27] @ '' object has no attribute ''
          @ [CHR 0x27] @ a @ [CHR 0x27]) a)"

definition Bool_validate :: "string \<Rightarrow> pyval \<Rightarrow> outcome" where
  "Bool_validate key v =
     (case v of
        PStr s \<Rightarrow>
          (let v' = str_lower s in
           if v' \<in> set [''yes'', ''true'', ''on''] then Inr (PBool True)
           else if v' \<in> set [''no'', ''false'', ''off''] then Inr (PBool False)
           else Inl (raise_error Bool key (PStr v')
                       (Some ''Value does not appear to be a bool'') None))
      | _ \<Rightarrow> Inl (no_attribute v ''lower''))"

subsection \<open>Date and Time\<close>

text \<open>
  \<open>__init__\<close>: \<open>if fmt\<close> is true for a non-empty string; the constructor raises
  \<open>ValueError\<close> when it got neither a format nor \<open>use_isoformat\<close>.  The fields stored
  are \<open>format\<close>, \<open>keep_date_object\<close> and \<open>use_isoformat\<close>, in this order.
\<close>

definition truthy_fmt :: "string option \<Rightarrow> bool" where
  "truthy_fmt fmt = (case fmt of None \<Rightarrow> False | Some f \<Rightarrow> f \<noteq> [])"

definition Date_init :: "string option \<Rightarrow> bool \<Rightarrow> bool \<Rightarrow> pyexn + validator" where
  "Date_init fmt keep_date_object use_isoformat =
     (if truthy_fmt fmt then Inr (Date fmt keep_date_object False)
      else if use_isoformat then Inr (Date None keep_date_object True)
      else Inl (PyExn ValueError ''Neither a format nor use_isoformat was used.''
                  ''Date.__init__''))"

definition Time_init :: "string option \<Rightarrow> bool \<Rightarrow> bool \<Rightarrow> pyexn + validator" where
  "Time_init fmt keep_time_object use_isoformat =
     (if truthy_fmt fmt then Inr (Time fmt keep_time_object False)
      else if use_isoformat then Inr (Time None keep_time_object True)
      else Inl (PyExn ValueError ''Neither a format nor use_isoformat was used.''
                  ''Time.__init__''))"

definition not_a_str :: "pyval \<Rightarrow> string \<Rightarrow> error" where
  "not_a_str v f =
     Propagated (PyExn TypeError (f @ '' argument must be str, not '' @ type_name v) f)"

definition Date_validate ::
  "platform \<Rightarrow> string option \<Rightarrow> bool \<Rightarrow> bool \<Rightarrow> string \<Rightarrow> pyval \<Rightarrow> outcome" where
  "Date_validate P fmt keep use_iso key v =
     (if use_iso then
        (case v of
           PStr s \<Rightarrow>
             (case date_fromisoformat P s of
                Some d \<Rightarrow> Inr d
              | None \<Rightarrow> Inl (raise_error (Date fmt keep use_iso) key v
                                (Some ''invalid value for ISO date format'') None))
         | _ \<Rightarrow> Inl (not_a_str v ''fromisoformat''))
      else
        (case fmt of
           Some f \<Rightarrow>
             (case v of
                PStr s \<Rightarrow>
                  (case strptime_date P s f of
                     Some d \<Rightarrow> Inr d
                   | None \<Rightarrow> Inl (raise_error (Date fmt keep use_iso) key v
                                     (Some (''invalid value for format '' @ py_repr P (PStr f)))
                                     None))
              | _ \<Rightarrow> Inl (not_a_str v ''strptime''))
         | None \<Rightarrow>
             Inl (Propagated (PyExn ValueError ''Neither a format nor use_isoformat exist.''
                                ''Date.validate''))))"

definition Time_validate ::
  "platform \<Rightarrow> string option \<Rightarrow> bool \<Rightarrow> bool \<Rightarrow> string \<Rightarrow> pyval \<Rightarrow> outcome" where
  "Time_validate P fmt keep use_iso key v =
     (if use_iso then
        (case v of
           PStr s \<Rightarrow>
             (case time_fromisoformat P s of
                Some d \<Rightarrow> Inr d
              | None \<Rightarrow> Inl (raise_error (Time fmt keep use_iso) key v
                                (Some ''invalid value for ISO time format'') None))
         | _ \<Rightarrow> Inl (not_a_str v ''fromisoformat''))
      else
        (case fmt of
           Some f \<Rightarrow>
             (case v of
                PStr s \<Rightarrow>
                  (case strptime_time P s f of
                     Some d \<Rightarrow> Inr d
                   | None \<Rightarrow> Inl (raise_error (Time fmt keep use_iso) key v
                                     (Some (''invalid value for format '' @ py_repr P (PStr f)))
                                     None))
              | _ \<Rightarrow> Inl (not_a_str v ''strptime''))
         | None \<Rightarrow>
             Inl (Propagated (PyExn ValueError ''Neither a format nor use_isoformat exist.''
                                ''Time.validate''))))"

subsection \<open>Email\<close>

definition Email_validate :: "platform \<Rightarrow> string option \<Rightarrow> string \<Rightarrow> pyval \<Rightarrow> outcome" where
  "Email_validate P domain key v =
     (case v of
        PStr s \<Rightarrow>
          (case rpartition s (CHR ''@'') of
             (first, _, last') \<Rightarrow>
               if CHR ''@'' \<in> set first \<or> first = [] \<or> last' = [] then
                 Inl (raise_error (Email domain) key v (Some ''invalid email'') None)
               else
                 (case domain of
                    None \<Rightarrow> Inr PNone
                  | Some d \<Rightarrow>
                      if last' \<noteq> d then
                        Inl (raise_error (Email domain) key v
                               (Some (''invalid domain ('' @ py_repr P (PStr d) @ '')'')) None)
                      else Inr PNone))
      | _ \<Rightarrow> Inl (no_attribute v ''rpartition''))"

subsection \<open>Exists\<close>

definition Exists_validate :: "string \<Rightarrow> pyval \<Rightarrow> outcome" where
  "Exists_validate key v = Inr PNone"

subsection \<open>IPAddress\<close>

text \<open>
  \<open>socket.inet_pton(family, value)\<close>: \<open>TypeError\<close> for a value that is no \<open>str\<close>,
  \<open>ValueError\<close> for a string with a NUL character, \<open>OSError\<close> (\<open>socket.error\<close>) when the
  C library rejects the text.
\<close>

fun family_name :: "family \<Rightarrow> string" where
  "family_name AF_INET = ''inet_pton(AF_INET)''"
| "family_name AF_INET6 = ''inet_pton(AF_INET6)''"

definition inet_pton :: "platform \<Rightarrow> family \<Rightarrow> pyval \<Rightarrow> pyexn + unit" where
  "inet_pton P af v =
     (case v of
        PStr s \<Rightarrow>
          if CHR 0x00 \<in> set s then
            Inl (PyExn ValueError ''embedded null character'' (family_name af))
          else if libc_inet_pton P af s then Inr ()
          else Inl (PyExn OSError ''illegal IP address string passed to inet_pton''
                      (family_name af))
      | _ \<Rightarrow>
          Inl (PyExn TypeError (''inet_pton() argument 2 must be str, not '' @ type_name v)
                 (family_name af)))"

definition IPAddress_init :: "string list option \<Rightarrow> validator" where
  "IPAddress_init address_type =
     (case address_type of None \<Rightarrow> IPAddress [''ipv4''] | Some t \<Rightarrow> IPAddress t)"

text \<open>
  The two \<open>try\<close> blocks in order, threading \<open>dirty\<close> and \<open>error\<close>; \<open>except socket.error\<close>
  catches \<open>OSError\<close> only, anything else leaves \<open>validate\<close>.
\<close>

definition IPAddress_validate :: "platform \<Rightarrow> string list \<Rightarrow> string \<Rightarrow> pyval \<Rightarrow> outcome" where
  "IPAddress_validate P tys key v =
     (let dirty = True; error = None in
      case (if ''ipv4'' \<in> set tys then
              (case inet_pton P AF_INET v of
                 Inl err \<Rightarrow>
                   if exn_class err = OSError then Inr (dirty, Some err) else Inl err
               | Inr _ \<Rightarrow> Inr (False, error))
            else Inr (dirty, error)) of
        Inl err \<Rightarrow> Inl (Propagated err)
      | Inr (dirty, error) \<Rightarrow>
          (case (if ''ipv6'' \<in> set tys then
                   (case inet_pton P AF_INET6 v of
                      Inl err \<Rightarrow>
                        if exn_class err = OSError
                        then Inr (dirty, if dirty then Some err else error)
                        else Inl err
                    | Inr _ \<Rightarrow> Inr (False, error))
                 else Inr (dirty, error)) of
             Inl err \<Rightarrow> Inl (Propagated err)
           | Inr (dirty, error) \<Rightarrow>
               if dirty then Inl (raise_error (IPAddress tys) key v None error)
               else Inr PNone))"

subsection \<open>Length\<close>

fun py_len :: "pyval \<Rightarrow> nat option" where
  "py_len (PStr s) = Some (length s)"
| "py_len (PList xs) = Some (length xs)"
| "py_len (PDict d) = Some (length d)"
| "py_len _ = None"

definition length_msg :: "string \<Rightarrow> int \<Rightarrow> string \<Rightarrow> int \<Rightarrow> string" where
  "length_msg w n r b =
     ''value too '' @ w @ '' ('' @ str_int n @ '' '' @ r @ '' '' @ str_int b @ '')''"

definition Length_validate :: "int option \<Rightarrow> int option \<Rightarrow> string \<Rightarrow> pyval \<Rightarrow> outcome" where
  "Length_validate mn mx key v =
     (case py_len v of
        None \<Rightarrow>
          Inl (Propagated (PyExn TypeError
                 (''object of type '' @ [CHR 0x27] @ type_name v @ [CHR 0x27] @ '' has no len()'')
                 ''len''))
      | Some l \<Rightarrow>
          (let n = int l in
           if mn \<noteq> None \<and> n < the mn then
             Inl (raise_error (Length mn mx) key v
                    (Some (length_msg ''short'' n ''<'' (the mn))) None)
           else if mx \<noteq> None \<and> n > the mx then
             Inl (raise_error (Length mn mx) key v
                    (Some (length_msg ''long'' n ''>'' (the mx))) None)
           else Inr PNone))"

subsection \<open>Regex and Select\<close>

text \<open>The message of a \<open>Regex\<close> failure is the compiled pattern; the model keeps its text.\<close>

definition Regex_validate :: "platform \<Rightarrow> string \<Rightarrow> string \<Rightarrow> pyval \<Rightarrow> outcome" where
  "Regex_validate P pattern key v =
     (case v of
        PStr s \<Rightarrow>
          if \<not> re_match P pattern s
          then Inl (raise_error (Regex pattern) key v (Some pattern) None)
          else Inr PNone
      | _ \<Rightarrow>
          Inl (Propagated (PyExn TypeError ''expected string or bytes-like object''
                 ''pattern.match'')))"

text \<open>\<open>value not in self._options\<close> hashes the value: a list or a dict is unhashable.\<close>

fun hashable :: "pyval \<Rightarrow> bool" where
  "hashable (PList _) = False"
| "hashable (PDict _) = False"
| "hashable _ = True"

definition Select_validate :: "platform \<Rightarrow> pyval list \<Rightarrow> string \<Rightarrow> pyval \<Rightarrow> outcome" where
  "Select_validate P options key v =
     (if \<not> hashable v then
        Inl (Propagated (PyExn TypeError
               (''unhashable type: '' @ [CHR 0x27] @ type_name v @ [CHR 0x27]) ''in''))
      else if \<not> list_ex (py_eq P v) options
      then Inl (raise_error (Select options) key v None None)
      else Inr PNone)"

section \<open>Meta-validators\<close>

text \<open>
  The wrapped function returns a value or raises; \<open>except Exception\<close> catches the
  instances of \<open>Exception\<close> and lets the others through.
\<close>

definition LambdaMap_validate :: "(pyval \<Rightarrow> pyexn + pyval) \<Rightarrow> string \<Rightarrow> pyval \<Rightarrow> outcome" where
  "LambdaMap_validate f key v =
     (case f v of
        Inr r \<Rightarrow> Inr r
      | Inl e \<Rightarrow>
          if is_Exception (exn_class e)
          then Inl (raise_error (LambdaMap f) key v None (Some e))
          else Inl (Propagated e))"

fun py_truthy :: "pyval \<Rightarrow> bool" where
  "py_truthy PNone = False"
| "py_truthy (PBool b) = b"
| "py_truthy (PInt i) = (i \<noteq> 0)"
| "py_truthy (PStr s) = (s \<noteq> [])"
| "py_truthy (PList xs) = (xs \<noteq> [])"
| "py_truthy (PDict d) = (d \<noteq> [])"
| "py_truthy (PDate _ _ _) = True"
| "py_truthy (PTime _ _ _ _) = True"

text \<open>
  The wrapped function is called once per test that reaches it; it is a function of the
  value, so one call stands for all of them, and its exception leaves \<open>validate\<close>.
  The last test compares with \<open>==\<close>; a sentinel equals no form value.
\<close>

definition LambdaFilter_validate ::
  "platform \<Rightarrow> (pyval \<Rightarrow> pyexn + pyval) \<Rightarrow> match_mode \<Rightarrow> string \<Rightarrow> pyval \<Rightarrow> outcome" where
  "LambdaFilter_validate P f m key v =
     (case f v of
        Inl e \<Rightarrow> Inl (Propagated e)
      | Inr r \<Rightarrow>
          if m = NONE \<and> r = PNone then Inr PNone
          else if m = NOTNONE \<and> r \<noteq> PNone then Inr PNone
          else if m = TRUTHY \<and> py_truthy r then Inr PNone
          else if m = FALSY \<and> \<not> py_truthy r then Inr PNone
          else if (case m of Matches x \<Rightarrow> py_eq P r x | _ \<Rightarrow> False) then Inr PNone
          else Inl (raise_error (LambdaFilter f m) key v
                      (Some (''failed to match '' @ repr_matches P m)) None))"

section \<open>Data structure validators and the runner\<close>

text \<open>
  \<open>List\<close>, \<open>Dict\<close> and \<open>Map\<close> assign into the value they were given.  The model
  threads that state: \<open>validate\<close> returns its outcome together with the value as the
  call leaves it, also when it raises.  Values are trees (form data shares no objects),
  and a wrapped function returns a fresh value.

  \<open>u.validate_item\<close> is Modelled from the spec: the module \<open>u\<close> is not among the
  sources; \<open>validate_item\<close> and \<open>run_chain\<close> follow section 4.4 (normalise to a
  sequence, call each \<open>validate\<close> in order on the current value, stop at the first
  failure, a returned value other than \<open>None\<close> becomes the current value and the
  result, \<open>None\<close> when nothing was replaced).
\<close>

definition dict_get :: "(string \<times> pyval) list \<Rightarrow> string \<Rightarrow> pyval option" where
  "dict_get d k = map_of d k"

fun dict_set :: "(string \<times> pyval) list \<Rightarrow> string \<Rightarrow> pyval \<Rightarrow> (string \<times> pyval) list" where
  "dict_set [] k v = [(k, v)]"
| "dict_set ((k', x) # d) k v = (if k' = k then (k, v) # d else (k', x) # dict_set d k v)"

definition list_key :: "string \<Rightarrow> nat \<Rightarrow> string" where
  "list_key key index = key @ ''['' @ str_nat index @ '']''"

definition dict_key_path :: "string \<Rightarrow> string \<Rightarrow> string" where
  "dict_key_path key dict_key = key @ ''.'' @ dict_key"

definition map_key_path :: "string \<Rightarrow> string \<Rightarrow> string" where
  "map_key_path key map_key = key @ ''['' @ map_key @ '']''"

function (sequential) validate :: "platform \<Rightarrow> validator \<Rightarrow> string \<Rightarrow> pyval \<Rightarrow> outcome \<times> pyval"
and validate_item :: "platform \<Rightarrow> vspec \<Rightarrow> string \<Rightarrow> pyval \<Rightarrow> outcome \<times> pyval"
and run_chain :: "platform \<Rightarrow> validator list \<Rightarrow> string \<Rightarrow> pyval \<Rightarrow> pyval option \<Rightarrow> outcome \<times> pyval"
and list_loop :: "platform \<Rightarrow> vspec \<Rightarrow> string \<Rightarrow> nat \<Rightarrow> pyval list \<Rightarrow> error option \<times> pyval list"
and dict_loop :: "platform \<Rightarrow> (string \<times> vspec) list \<Rightarrow> string \<Rightarrow> (string \<times> pyval) list \<Rightarrow> error option \<times> (string \<times> pyval) list"
and map_loop :: "platform \<Rightarrow> vspec \<Rightarrow> string \<Rightarrow> (string \<times> pyval) list \<Rightarrow> error option \<times> (string \<times> pyval) list"
where
  "validate P (List vs) key v =
     (case v of
        PList xs \<Rightarrow>
          (case list_loop P vs key 0 xs of
             (None, xs') \<Rightarrow> (Inr PNone, PList xs')
           | (Some e, xs') \<Rightarrow> (Inl e, PList xs'))
      | _ \<Rightarrow> (Inl (raise_error (List vs) key v (Some ''Form field is not a list'') None), v))"
| "validate P (Dict flds) key v =
     (case v of
        PDict d \<Rightarrow>
          (case dict_loop P flds key d of
             (None, d') \<Rightarrow> (Inr PNone, PDict d')
           | (Some e, d') \<Rightarrow> (Inl e, PDict d'))
      | _ \<Rightarrow> (Inl (raise_error (Dict flds) key v (Some ''Form field is not a dict'') None), v))"
| "validate P (Map vs) key v =
     (case v of
        PDict d \<Rightarrow>
          (case map_loop P vs key d of
             (None, d') \<Rightarrow> (Inr PNone, PDict d')
           | (Some e, d') \<Rightarrow> (Inl e, PDict d'))
      | _ \<Rightarrow> (Inl (raise_error (Map vs) key v (Some ''Form field is not a dict'') None), v))"
| "validate P (LambdaMap f) key v = (LambdaMap_validate f key v, v)"
| "validate P (LambdaFilter f m) key v = (LambdaFilter_validate P f m key v, v)"
| "validate P Bool key v = (Bool_validate key v, v)"
| "validate P (Date fmt keep use_iso) key v = (Date_validate P fmt keep use_iso key v, v)"
| "validate P (Email domain) key v = (Email_validate P domain key v, v)"
| "validate P Exists key v = (Exists_validate key v, v)"
| "validate P (IPAddress tys) key v = (IPAddress_validate P tys key v, v)"
| "validate P (Length mn mx) key v = (Length_validate mn mx key v, v)"
| "validate P (Regex pattern) key v = (Regex_validate P pattern key v, v)"
| "validate P (Select options) key v = (Select_validate P options key v, v)"
| "validate P (Time fmt keep use_iso) key v = (Time_validate P fmt keep use_iso key v, v)"
| "validate_item P vs path v = run_chain P (wrap_validator_list vs) path v None"
| "run_chain P [] path orig repl = (Inr (case repl of None \<Rightarrow> PNone | Some r \<Rightarrow> r), orig)"
| "run_chain P (vd # vds) path orig repl =
     (case repl of
        None \<Rightarrow>
          (case validate P vd path orig of
             (Inl e, orig') \<Rightarrow> (Inl e, orig')
           | (Inr out, orig') \<Rightarrow>
               run_chain P vds path orig' (if out = PNone then None else Some out))
      | Some cur \<Rightarrow>
          (case validate P vd path cur of
             (Inl e, cur') \<Rightarrow> (Inl e, orig)
           | (Inr out, cur') \<Rightarrow>
               run_chain P vds path orig (Some (if out = PNone then cur' else out))))"
| "list_loop P vs key index [] = (None, [])"
| "list_loop P vs key index (x # xs) =
     (case validate_item P vs (list_key key index) x of
        (Inl e, x') \<Rightarrow> (Some e, x' # xs)
      | (Inr out, x') \<Rightarrow>
          (case list_loop P vs key (Suc index) xs of
             (r, xs') \<Rightarrow> (r, (if out = PNone then x' else out) # xs')))"
| "dict_loop P [] key d = (None, d)"
| "dict_loop P ((dict_key, validators) # rest) key d =
     (case dict_get d dict_key of
        None \<Rightarrow> (Some (FormKeyError (dict_key_path key dict_key)), d)
      | Some dict_value \<Rightarrow>
          (case validate_item P validators (dict_key_path key dict_key) dict_value of
             (Inl e, x') \<Rightarrow> (Some e, dict_set d dict_key x')
           | (Inr out, x') \<Rightarrow>
               dict_loop P rest key (dict_set d dict_key (if out = PNone then x' else out))))"
| "map_loop P vs key [] = (None, [])"
| "map_loop P vs key ((map_key, map_value) # rest) =
     (case validate_item P vs (map_key_path key map_key) map_value of
        (Inl e, x') \<Rightarrow> (Some e, (map_key, x') # rest)
      | (Inr out, x') \<Rightarrow>
          (case map_loop P vs key rest of
             (r, rest') \<Rightarrow> (r, (map_key, if out = PNone then x' else out) # rest')))"
  by pat_completeness auto
termination
  apply (relation "measures
    [\<lambda>x. case x of
        Inl (Inl (P, vd, k, v)) \<Rightarrow> size vd
      | Inl (Inr (Inl (P, vs, k, v))) \<Rightarrow> size vs
      | Inl (Inr (Inr (P, vds, k, v, r))) \<Rightarrow> size_list size vds
      | Inr (Inl (P, vs, k, i, xs)) \<Rightarrow> size vs
      | Inr (Inr (Inl (P, fl, k, d))) \<Rightarrow> size (Dict fl)
      | Inr (Inr (Inr (P, vs, k, d))) \<Rightarrow> size vs,
     \<lambda>x. case x of
        Inl (Inl (P, vd, k, v)) \<Rightarrow> 1
      | Inl (Inr (Inl (P, vs, k, v))) \<Rightarrow> 1
      | Inl (Inr (Inr (P, vds, k, v, r))) \<Rightarrow> 0
      | Inr (Inl (P, vs, k, i, xs)) \<Rightarrow> 2 + length xs
      | Inr (Inr (Inl (P, fl, k, d))) \<Rightarrow> 0
      | Inr (Inr (Inr (P, vs, k, d))) \<Rightarrow> 2 + length d]")
  apply simp_all
  subgoal for vs by (cases vs) simp_all
  done

subsection \<open>Sample wrapped functions\<close>

text \<open>
  Three functions a caller can hand to \<open>LambdaMap\<close>: \<open>lambda v: v + 1\<close>, whose \<open>+\<close> raises
  \<open>TypeError\<close> on a value that is no number; \<open>lambda v: sys.exit(0)\<close>; and a function
  interrupted from the keyboard while it runs.
\<close>

definition increment :: "pyval \<Rightarrow> pyexn + pyval" where
  "increment v =
     (case v of
        PInt n \<Rightarrow> Inr (PInt (n + 1))
      | PBool b \<Rightarrow> Inr (PInt ((if b then 1 else 0) + 1))
      | _ \<Rightarrow> Inl (PyExn TypeError ''unsupported operand type(s) for +'' ''+''))"

definition sys_exit :: "pyval \<Rightarrow> pyexn + pyval" where
  "sys_exit v = Inl (PyExn SystemExit ''0'' ''sys.exit'')"

definition interrupted :: "pyval \<Rightarrow> pyexn + pyval" where
  "interrupted v = Inl (PyExn KeyboardInterrupt [] ''signal'')"

section \<open>Bool: the two word lists and the reported value\<close>

lemma str_lower_Cons: "str_lower (c # s) = lower_char c # str_lower s"
  by (simp add: str_lower_def)

lemma str_lower_Nil: "str_lower [] = []"
  by (simp add: str_lower_def)

lemma Bool_validate_str:
  "Bool_validate key (PStr s) =
     (if str_lower s \<in> {''yes'', ''true'', ''on''} then Inr (PBool True)
      else if str_lower s \<in> {''no'', ''false'', ''off''} then Inr (PBool False)
      else Inl (ValidationError key (PStr (str_lower s)) Bool
                  (Some ''Value does not appear to be a bool'') None))"
  by (simp add: Bool_validate_def raise_error_def Let_def)

text \<open>
  C4: for every string value, \<open>Bool.validate\<close> returns \<open>True\<close> when the lowered value is
  one of "yes", "true", "on", \<open>False\<close> when it is one of "no", "false", "off", and raises
  a \<open>ValidationError\<close> for every other string.
\<close>

theorem Bool_validate_words:
  "(str_lower s \<in> {''yes'', ''true'', ''on''} \<longrightarrow> Bool_validate key (PStr s) = Inr (PBool True))
   \<and> (str_lower s \<in> {''no'', ''false'', ''off''} \<longrightarrow> Bool_validate key (PStr s) = Inr (PBool False))
   \<and> (str_lower s \<notin> {''yes'', ''true'', ''on'', ''no'', ''false'', ''off''} \<longrightarrow>
        (\<exists>msg. Bool_validate key (PStr s) = Inl (ValidationError key (PStr (str_lower s)) Bool msg None)))"
  by (auto simp add: Bool_validate_str)

theorem Bool_validate_words_witness:
  "Bool_validate ''field'' (PStr ''YES'') = Inr (PBool True)
   \<and> Bool_validate ''field'' (PStr ''oN'') = Inr (PBool True)
   \<and> Bool_validate ''field'' (PStr ''False'') = Inr (PBool False)
   \<and> Bool_validate ''field'' (PStr ''OFF'') = Inr (PBool False)
   \<and> (\<exists>msg. Bool_validate ''field'' (PStr ''1'') =
          Inl (ValidationError ''field'' (PStr ''1'') Bool msg None))"
proof -
  have l: "str_lower ''YES'' = ''yes''" "str_lower ''oN'' = ''on''"
    "str_lower ''False'' = ''false''" "str_lower ''OFF'' = ''off''" "str_lower ''1'' = ''1''"
    by code_simp+
  show ?thesis
    using Bool_validate_words [of "''YES''" "''field''"] Bool_validate_words [of "''oN''" "''field''"]
      Bool_validate_words [of "''False''" "''field''"] Bool_validate_words [of "''OFF''" "''field''"]
      Bool_validate_words [of "''1''" "''field''"]
    by (simp add: l)
qed

text \<open>
  C10: the \<open>ValidationError\<close> that \<open>Bool.validate\<close> raises for a rejected string carries
  the lowered form of the input as its value, not the string as submitted.
\<close>

theorem Bool_validate_error_value:
  "Bool_validate key (PStr s) = Inl e \<Longrightarrow>
     e = ValidationError key (PStr (str_lower s)) Bool
           (Some ''Value does not appear to be a bool'') None
     \<and> err_value e = PStr (str_lower s)"
  by (auto simp add: Bool_validate_str split: if_splits)

theorem Bool_validate_error_value_witness:
  "\<exists>e. Bool_validate ''field'' (PStr ''Maybe'') = Inl e
     \<and> err_value e = PStr ''maybe'' \<and> err_value e \<noteq> PStr ''Maybe''"
proof -
  have l: "str_lower ''Maybe'' = ''maybe''" by code_simp
  have run: "Bool_validate ''field'' (PStr ''Maybe'') =
      Inl (ValidationError ''field'' (PStr (str_lower ''Maybe'')) Bool
             (Some ''Value does not appear to be a bool'') None)"
    by (simp add: Bool_validate_str l)
  note t = Bool_validate_error_value [OF run, unfolded l]
  from run [unfolded l] t show ?thesis by simp
qed

section \<open>LambdaMap: what is wrapped and what is not\<close>

text \<open>
  C7: \<open>LambdaMap.validate\<close> returns \<open>f(v)\<close> when \<open>f\<close> returns; when \<open>f\<close> raises an instance of
  \<open>Exception\<close> it raises a \<open>ValidationError\<close> for the same key and value whose wrapped
  exception is the one \<open>f\<close> raised; an exception outside \<open>Exception\<close> (\<open>SystemExit\<close>,
  \<open>KeyboardInterrupt\<close>, \<open>GeneratorExit\<close>) is not caught by \<open>except Exception\<close> and leaves
  \<open>validate\<close> as it is.
\<close>

theorem LambdaMap_validate_wraps:
  "(f v = Inr r \<longrightarrow> LambdaMap_validate f key v = Inr r)
   \<and> (f v = Inl e \<and> is_Exception (exn_class e) \<longrightarrow>
        LambdaMap_validate f key v = Inl (ValidationError key v (LambdaMap f) None (Some e)))
   \<and> (f v = Inl e \<and> \<not> is_Exception (exn_class e) \<longrightarrow>
        LambdaMap_validate f key v = Inl (Propagated e))"
  by (simp add: LambdaMap_validate_def raise_error_def)

theorem LambdaMap_validate_wraps_witness:
  "LambdaMap_validate increment ''n'' (PInt 41) = Inr (PInt 42)
   \<and> LambdaMap_validate increment ''n'' (PStr ''x'') =
       Inl (ValidationError ''n'' (PStr ''x'') (LambdaMap increment) None
              (Some (PyExn TypeError ''unsupported operand type(s) for +'' ''+'')))
   \<and> LambdaMap_validate interrupted ''n'' (PStr ''x'') =
       Inl (Propagated (PyExn KeyboardInterrupt [] ''signal''))"
  using LambdaMap_validate_wraps [of increment "PInt 41" "PInt 42" "''n''"]
    LambdaMap_validate_wraps [of increment "PStr ''x''" _ "''n''"
      "PyExn TypeError ''unsupported operand type(s) for +'' ''+''"]
    LambdaMap_validate_wraps [of interrupted "PStr ''x''" _ "''n''"
      "PyExn KeyboardInterrupt [] ''signal''"]
  by (simp add: increment_def interrupted_def)

theorem LambdaMap_validate_SystemExit:
  "LambdaMap_validate sys_exit ''n'' (PStr ''x'') =
     Inl (Propagated (PyExn SystemExit ''0'' ''sys.exit''))"
  by (simp add: LambdaMap_validate_def sys_exit_def)

section \<open>Length: the two bounds\<close>

text \<open>
  C5: on a sized value of length \<open>l\<close>, \<open>Length.validate\<close> passes exactly when \<open>l\<close> is neither
  below a configured \<open>min\<close> nor above a configured \<open>max\<close>; below \<open>min\<close> it raises the
  "too short" \<open>ValidationError\<close>, whatever \<open>max\<close> is, and above \<open>max\<close> but not below \<open>min\<close> it
  raises the "too long" one; these are its only failures.  Both bounds are violated at
  once only by a validator built with \<open>min > max\<close>.
\<close>

theorem Length_validate_bounds:
  "py_len v = Some l \<Longrightarrow>
     (Length_validate mn mx key v = Inr PNone \<longleftrightarrow>
        \<not> (\<exists>m. mn = Some m \<and> int l < m) \<and> \<not> (\<exists>m. mx = Some m \<and> int l > m))
   \<and> ((\<exists>m. mn = Some m \<and> int l < m) \<longrightarrow>
        Length_validate mn mx key v =
          Inl (ValidationError key v (Length mn mx)
                 (Some (''value too short ('' @ str_int (int l) @ '' < '' @ str_int (the mn) @ '')''))
                 None))
   \<and> (\<not> (\<exists>m. mn = Some m \<and> int l < m) \<and> (\<exists>m. mx = Some m \<and> int l > m) \<longrightarrow>
        Length_validate mn mx key v =
          Inl (ValidationError key v (Length mn mx)
                 (Some (''value too long ('' @ str_int (int l) @ '' > '' @ str_int (the mx) @ '')''))
                 None))
   \<and> ((\<exists>m. mn = Some m \<and> int l < m) \<and> (\<exists>m. mx = Some m \<and> int l > m) \<longrightarrow>
        the mx < the mn)"
  by (cases mn; cases mx)
     (auto simp add: Length_validate_def raise_error_def length_msg_def Let_def)

theorem Length_validate_bounds_witness:
  "Length_validate (Some 2) (Some 4) ''name'' (PStr ''a'') =
     Inl (ValidationError ''name'' (PStr ''a'') (Length (Some 2) (Some 4))
            (Some ''value too short (1 < 2)'') None)
   \<and> Length_validate (Some 2) (Some 4) ''name'' (PStr ''abc'') = Inr PNone
   \<and> Length_validate (Some 2) (Some 4) ''name'' (PStr ''abcde'') =
     Inl (ValidationError ''name'' (PStr ''abcde'') (Length (Some 2) (Some 4))
            (Some ''value too long (5 > 4)'') None)"
proof -
  have d: "str_int 1 = ''1''" "str_int 2 = ''2''" "str_int 4 = ''4''" "str_int 5 = ''5''"
    by code_simp+
  show ?thesis
    using Length_validate_bounds [of "PStr ''a''" 1 "Some 2" "Some 4" "''name''"]
      Length_validate_bounds [of "PStr ''abc''" 3 "Some 2" "Some 4" "''name''"]
      Length_validate_bounds [of "PStr ''abcde''" 5 "Some 2" "Some 4" "''name''"]
    by (simp add: d)
qed

theorem Length_validate_both_violated:
  "int (length ''abc'') < 5 \<and> int (length ''abc'') > 2
   \<and> Length_validate (Some 5) (Some 2) ''name'' (PStr ''abc'') =
       Inl (ValidationError ''name'' (PStr ''abc'') (Length (Some 5) (Some 2))
              (Some ''value too short (3 < 5)'') None)"
proof -
  have d: "str_int 3 = ''3''" "str_int 5 = ''5''"
    by code_simp+
  show ?thesis
    by (simp add: Length_validate_def raise_error_def length_msg_def Let_def d)
qed

end
